theory Spec2Isabelle
  imports Main "HOL-Library.Word"
begin

section \<open>Data model of the sketch\<close>

text \<open>
  The enums of \<^verbatim>\<open>MK5717_Clock_OTA.ino\<close>. \<^verbatim>\<open>Emulation\<close> and \<^verbatim>\<open>Model\<close> have
  \<^verbatim>\<open>uint8_t\<close> as underlying type; \<open>Emulation_code\<close> and \<open>Model_code\<close> give the
  enumerator values, \<open>EmulationCount\<close> and \<open>ModelCount\<close> the trailing counters.
\<close>

datatype DisplayMode = MODE_TIME | MODE_DATE | MODE_SET | MODE_MESSAGE

datatype Emulation = WIFI | MK5017

datatype Model = MODEL_GC_1005 | MODEL_GC_1092D | MODEL_GC_1092A | MODEL_GC_1094 | MODEL_BOGUS

datatype AlarmState = ALARM_IDLE | ALARM_ARMED | ALARM_SOUNDING | ALARM_SNOOZE

fun Emulation_code :: "Emulation \<Rightarrow> 8 word" where
  "Emulation_code WIFI = 0"
| "Emulation_code MK5017 = 1"

definition EmulationCount :: "8 word" where
  "EmulationCount = 2"

fun Model_code :: "Model \<Rightarrow> 8 word" where
  "Model_code MODEL_GC_1005 = 0"
| "Model_code MODEL_GC_1092D = 1"
| "Model_code MODEL_GC_1092A = 2"
| "Model_code MODEL_GC_1094 = 3"
| "Model_code MODEL_BOGUS = 4"

definition ModelCount :: "8 word" where
  "ModelCount = 5"

text \<open>
  \<^verbatim>\<open>static_cast<Emulation>(e)\<close> and \<^verbatim>\<open>static_cast<Model>(md)\<close>, on the ranges
  \<open>e < EmulationCount\<close> and \<open>md < ModelCount\<close> where \<^verbatim>\<open>loadEEPROM\<close> applies them.
\<close>

definition Emulation_of :: "8 word \<Rightarrow> Emulation" where
  "Emulation_of e = (if e = 0 then WIFI else MK5017)"

definition Model_of :: "8 word \<Rightarrow> Model" where
  "Model_of md =
     (if md = 0 then MODEL_GC_1005
      else if md = 1 then MODEL_GC_1092D
      else if md = 2 then MODEL_GC_1092A
      else if md = 3 then MODEL_GC_1094
      else MODEL_BOGUS)"

record EmulationInfo =
  emulation :: Emulation
  model :: Model

definition defaultEmulation :: Emulation where
  "defaultEmulation = WIFI"

definition defaultModel :: Model where
  "defaultModel = MODEL_GC_1005"

text \<open>\<^verbatim>\<open>struct DebouncedSwitch\<close>; the timestamps are \<^verbatim>\<open>uint32_t\<close> readings of \<^verbatim>\<open>micros()\<close>.\<close>

record DebouncedSwitch =
  state :: bool
  changed :: bool
  lastRead :: bool
  lastChange :: "32 word"
  changedAt :: "32 word"

definition debounceDelay :: "32 word" where
  "debounceDelay = 1000"

text \<open>
  The pulse peripheral is driven through two calls only; the model logs them in order, so
  that "does not touch the peripheral" is a statement about the log.
\<close>

datatype rmt_call = rmt_write_items | rmt_tx_stop

text \<open>
  The global variables the modelled functions read or write. \<^verbatim>\<open>int\<close> globals are
  \<open>int\<close>: the modelled paths only compare them, assign constants, or decrement a
  positive value, so no 32-bit wrap-around can occur. \<open>serial\<close> is the sequence of lines
  printed with \<^verbatim>\<open>Serial.println\<close>, \<open>rmt\<close> the sequence of calls to the pulse peripheral.

  Not modelled: the four display strings (\<^verbatim>\<open>timestring\<close>, \<^verbatim>\<open>datestring\<close>,
  \<^verbatim>\<open>setstring\<close>, \<^verbatim>\<open>displaystring\<close>), the AM pin and the segment buffer
  \<^verbatim>\<open>displayBuffer\<close>. The functions below write them for rendering and never read them back.
\<close>

record globals =
  timeBlankingEnabled :: bool
  ontime :: int
  offtime :: int
  weekendBlankingEnabled :: bool
  weekendDay1 :: string
  weekendDay2 :: string
  toneActive :: bool
  datecounter :: int
  manualOverride :: bool
  overrideForBlank :: bool
  touchoverride :: bool
  currentDisplayMode :: DisplayMode
  messageindex :: int
  info :: EmulationInfo
  sw_5 :: DebouncedSwitch
  topOfSecond :: bool
  halfSecond :: bool
  minutes :: "8 word"
  inEditMode :: bool
  autoDate :: bool
  alarmState :: AlarmState
  alarmEnabled :: bool
  timeSeconds :: "32 word"
  alarmSeconds :: "32 word"
  snoozeTargetS :: "32 word"
  serial :: "string list"
  rmt :: "rmt_call list"

definition SNOOZE_MIN :: "8 word" where
  "SNOOZE_MIN = 7"

definition ALARM_MAX_MIN :: "8 word" where
  "ALARM_MAX_MIN = 60"

definition Serial_println :: "string \<Rightarrow> globals \<Rightarrow> globals" where
  "Serial_println s g = g\<lparr>serial := serial g @ [s]\<rparr>"

section \<open>Tone generation\<close>

definition alarmToneStart :: "globals \<Rightarrow> globals" where
  "alarmToneStart g =
     (if toneActive g then g
      else (Serial_println ''AlarmStart'' g)
             \<lparr>rmt := rmt g @ [rmt_write_items], toneActive := True\<rparr>)"

definition alarmToneStop :: "globals \<Rightarrow> globals" where
  "alarmToneStop g =
     (if \<not> toneActive g then g
      else (Serial_println ''AlarmStop'' g)
             \<lparr>rmt := rmt g @ [rmt_tx_stop], toneActive := False\<rparr>)"

section \<open>Alarm engine\<close>

text \<open>
  \<^verbatim>\<open>updateAlarm\<close>. \<^verbatim>\<open>ALARM_MAX_MIN * 60\<close> multiplies a \<^verbatim>\<open>uint8_t\<close> by an
  \<^verbatim>\<open>int\<close> in \<^verbatim>\<open>int\<close>; the comparison with the \<^verbatim>\<open>uint32_t\<close> \<open>elapsed\<close> converts
  the product to \<^verbatim>\<open>uint32_t\<close>. \<open>elapsed\<close> itself is an unsigned 32-bit difference and
  wraps when \<open>timeSeconds < alarmSeconds\<close>.
\<close>

definition updateAlarm :: "globals \<Rightarrow> globals" where
  "updateAlarm g =
     (case alarmState g of
        ALARM_IDLE \<Rightarrow>
          if alarmEnabled g
          then Serial_println ''ALARM_ARMED'' (g\<lparr>alarmState := ALARM_ARMED\<rparr>)
          else g
      | ALARM_ARMED \<Rightarrow>
          if \<not> alarmEnabled g
          then Serial_println ''ALARM_IDLE'' (g\<lparr>alarmState := ALARM_IDLE\<rparr>)
          else if timeSeconds g = alarmSeconds g
          then Serial_println ''ALARM_SOUNDING'' (g\<lparr>alarmState := ALARM_SOUNDING\<rparr>)
          else g
      | ALARM_SOUNDING \<Rightarrow>
          if \<not> alarmEnabled g
          then (alarmToneStop g)\<lparr>alarmState := ALARM_IDLE\<rparr>
          else
            let elapsed = timeSeconds g - alarmSeconds g in
            if elapsed \<ge> word_of_int (uint ALARM_MAX_MIN * 60)
            then (Serial_println ''Alarm reached max duration'' (alarmToneStop g))
                   \<lparr>alarmState := ALARM_IDLE\<rparr>
            else g
      | ALARM_SNOOZE \<Rightarrow>
          if \<not> alarmEnabled g
          then g\<lparr>alarmState := ALARM_IDLE\<rparr>
          else if timeSeconds g \<ge> snoozeTargetS g
          then g\<lparr>alarmState := ALARM_SOUNDING\<rparr>
          else g)"

text \<open>
  \<^verbatim>\<open>requestSnooze\<close>. \<^verbatim>\<open>SNOOZE_MIN * 60\<close> is computed in \<^verbatim>\<open>int\<close> and added to the
  \<^verbatim>\<open>uint32_t\<close> \<open>timeSeconds\<close> modulo \<open>2 ^ 32\<close>.
\<close>

definition requestSnooze :: "globals \<Rightarrow> globals" where
  "requestSnooze g0 =
     (let g = Serial_println ''Snooze'' g0 in
      if alarmState g = ALARM_SOUNDING
      then (alarmToneStop
              (g\<lparr>snoozeTargetS := timeSeconds g + word_of_int (uint SNOOZE_MIN * 60)\<rparr>))
             \<lparr>alarmState := ALARM_SNOOZE\<rparr>
      else g)"

definition alarmToneDriver :: "globals \<Rightarrow> globals" where
  "alarmToneDriver g =
     (if alarmState g \<noteq> ALARM_SOUNDING then alarmToneStop g
      else
        let g1 = (if topOfSecond g then alarmToneStart g else g) in
        if halfSecond g1 then alarmToneStop g1 else g1)"

text \<open>
  The time of day as the alarm engine sees it: \<^verbatim>\<open>handleTimedDispatches\<close> stores
  \<open>hour * 3600 + minute * 60 + second\<close> in \<open>timeSeconds\<close> and \<open>alarmSeconds\<close>, so both are
  below \<open>86400\<close>. \<open>elapsed_of_day\<close> is the number of seconds from the alarm time forward to
  the current time on the 24-hour dial.
\<close>

definition elapsed_of_day :: "32 word \<Rightarrow> 32 word \<Rightarrow> nat" where
  "elapsed_of_day t a = (if unat a \<le> unat t then unat t - unat a else unat t + 86400 - unat a)"

section \<open>Switch debouncing\<close>

text \<open>
  \<^verbatim>\<open>debounceSwitch\<close> updates the switch through a reference and returns its
  \<open>changed\<close> flag: the model returns the flag and the updated switch.
\<close>

definition debounceSwitch :: "DebouncedSwitch \<Rightarrow> bool \<Rightarrow> 32 word \<Rightarrow> bool \<times> DebouncedSwitch" where
  "debounceSwitch sw0 raw nowMicros =
     (let sw1 = sw0\<lparr>changed := False\<rparr>;
          sw2 = (if raw \<noteq> lastRead sw1
                 then sw1\<lparr>lastRead := raw, lastChange := nowMicros\<rparr>
                 else sw1);
          sw3 = (if nowMicros - lastChange sw2 > debounceDelay
                 then (if raw \<noteq> state sw2 then sw2\<lparr>state := raw, changed := True\<rparr> else sw2)
                 else sw2)
      in (changed sw3, sw3))"

text \<open>
  Successive calls on one switch, as \<^verbatim>\<open>CheckSwitches\<close> makes them from \<^verbatim>\<open>loop()\<close>:
  each sample is the raw level and the \<^verbatim>\<open>micros()\<close> reading of that call. The result
  lists the switch as it stands after each call.
\<close>

fun debounce_calls :: "DebouncedSwitch \<Rightarrow> (bool \<times> 32 word) list \<Rightarrow> DebouncedSwitch list" where
  "debounce_calls sw [] = []"
| "debounce_calls sw ((raw, nowMicros) # rest) =
     (let sw' = snd (debounceSwitch sw raw nowMicros) in sw' # debounce_calls sw' rest)"

text \<open>The same raw level \<open>r\<close> sampled at each of the times \<open>ts\<close>.\<close>

definition held :: "bool \<Rightarrow> 32 word list \<Rightarrow> (bool \<times> 32 word) list" where
  "held r ts = map (\<lambda>t. (r, t)) ts"

section \<open>Display rendering\<close>

text \<open>
  \<^verbatim>\<open>updateDisplayValue\<close>, as far as the modelled variables go: it renders the segment
  buffer (not modelled) and, when asked to show the date in MK5017 emulation on a model
  without date display, falls back to the time display.
\<close>

definition updateDisplayValue :: "globals \<Rightarrow> globals" where
  "updateDisplayValue g =
     (case currentDisplayMode g of
        MODE_TIME \<Rightarrow> g
      | MODE_DATE \<Rightarrow>
          if emulation (info g) = WIFI \<or> model (info g) = MODEL_GC_1092D then g
          else Serial_println
                 ''Date display not supported in MK5017 mode for this model, reverting to time display''
                 (g\<lparr>currentDisplayMode := MODE_TIME\<rparr>)
      | MODE_SET \<Rightarrow> g
      | MODE_MESSAGE \<Rightarrow> g)"

section \<open>Set mode: minute increment\<close>

text \<open>
  \<^verbatim>\<open>updateStrings\<close> formats \<^verbatim>\<open>setstring\<close> and \<^verbatim>\<open>displaystring\<close> from the edit
  buffer, drives the AM pin and calls \<^verbatim>\<open>updateDisplayValue\<close>; only the call reaches
  modelled variables.
\<close>

definition updateStrings :: "globals \<Rightarrow> globals" where
  "updateStrings g = updateDisplayValue g"

text \<open>
  \<^verbatim>\<open>incrementMinuteOnes\<close>. The locals \<open>tens\<close> and \<open>ones\<close> are \<^verbatim>\<open>uint8_t\<close>; the
  expressions \<^verbatim>\<open>(ones + 1) % 10\<close> and \<^verbatim>\<open>tens * 10 + ones\<close> are evaluated in
  \<^verbatim>\<open>int\<close> and truncated to eight bits on assignment.
\<close>

definition incrementMinuteOnes :: "globals \<Rightarrow> globals" where
  "incrementMinuteOnes g =
     (let tens = (minutes g div 10 :: 8 word);
          ones = (minutes g mod 10 :: 8 word);
          ones' = (word_of_int ((uint ones + 1) mod 10) :: 8 word)
      in updateStrings (g\<lparr>minutes := word_of_int (uint tens * 10 + uint ones')\<rparr>))"

section \<open>Display mode sequencer\<close>

text \<open>
  What \<^verbatim>\<open>updateDisplayStateIfNeeded\<close> asks of the time service during one call:
  \<^verbatim>\<open>tz.dateTime("His").toInt()\<close>, \<^verbatim>\<open>tz.dateTime("l")\<close> and \<^verbatim>\<open>tz.second()\<close>
  (read twice in one condition; the model takes both reads to agree).
\<close>

record tz_reading =
  His_toInt :: int
  day_l :: string
  second :: nat

text \<open>
  The tail of \<^verbatim>\<open>updateDisplayStateIfNeeded\<close> from the comment
  \<^verbatim>\<open>// Normal blanking logic\<close> to the closing \<^verbatim>\<open>updateDisplayValue()\<close>. It is a
  definition of its own because the manual-override block either falls through to it or
  returns before it.
\<close>

definition normalBlanking :: "bool \<Rightarrow> bool \<Rightarrow> globals \<Rightarrow> globals" where
  "normalBlanking isWeekend withinDisplayWindow g =
     updateDisplayValue
       (if currentDisplayMode g \<noteq> MODE_DATE \<and> \<not> overrideForBlank g then
          (if isWeekend \<and> \<not> overrideForBlank g
           then Serial_println ''Weekend blanking active''
                  (g\<lparr>currentDisplayMode := MODE_MESSAGE, messageindex := 9\<rparr>)
           else if \<not> isWeekend \<and> \<not> withinDisplayWindow \<and> \<not> overrideForBlank g
           then Serial_println ''Time-of-day blanking active''
                  (g\<lparr>currentDisplayMode := MODE_MESSAGE, messageindex := 9\<rparr>)
           else if \<not> isWeekend \<and> withinDisplayWindow \<and> \<not> overrideForBlank g
           then g\<lparr>currentDisplayMode := MODE_TIME\<rparr>
           else g)
        else g)"

definition updateDisplayStateIfNeeded :: "tz_reading \<Rightarrow> globals \<Rightarrow> globals" where
  "updateDisplayStateIfNeeded tz g =
     (let currentTime = His_toInt tz;
          currentDay = day_l tz;
          isWeekend = (weekendBlankingEnabled g \<and>
                        (currentDay = weekendDay1 g \<or> currentDay = weekendDay2 g));
          withinDisplayWindow = ((\<not> timeBlankingEnabled g) \<or>
                                  (currentTime \<ge> ontime g \<and> currentTime < offtime g))
      in
      if emulation (info g) = MK5017 then
        (if model (info g) = MODEL_BOGUS then g
         else if model (info g) = MODEL_GC_1092D \<and> \<not> inEditMode g then
           (let g1 =
                  (if autoDate g \<or> touchoverride g then
                     (if second tz mod 10 = 8 \<or> second tz mod 10 = 9
                      then g\<lparr>currentDisplayMode := MODE_DATE\<rparr>
                      else if currentDisplayMode g \<noteq> MODE_TIME \<and> \<not> touchoverride g
                      then g\<lparr>currentDisplayMode := MODE_TIME\<rparr>
                      else g)
                   else g)
            in
            if datecounter g1 > 1 \<and> (\<not> autoDate g1 \<or> touchoverride g1)
            then g1\<lparr>datecounter := datecounter g1 - 1\<rparr>
            else if currentDisplayMode g1 = MODE_DATE \<and> (\<not> autoDate g1 \<or> touchoverride g1)
            then g1\<lparr>datecounter := 0, touchoverride := False, currentDisplayMode := MODE_TIME\<rparr>
            else g1)
         else g)
      else
        (let g1 =
               (if datecounter g > 0 \<and> currentDisplayMode g = MODE_DATE
                then g\<lparr>datecounter := datecounter g - 1\<rparr>
                else if currentDisplayMode g = MODE_DATE
                then (if datecounter g = 0
                      then g\<lparr>touchoverride := False, currentDisplayMode := MODE_TIME\<rparr>
                      else g)
                else g)
         in
         if manualOverride g1 then
           (if currentDisplayMode g1 = MODE_DATE
            then normalBlanking isWeekend withinDisplayWindow g1
            else if (\<not> overrideForBlank g1 \<and> withinDisplayWindow) \<or>
                    (overrideForBlank g1 \<and> \<not> withinDisplayWindow)
            then normalBlanking isWeekend withinDisplayWindow (g1\<lparr>manualOverride := False\<rparr>)
            else updateDisplayValue
                   (if overrideForBlank g1
                    then g1\<lparr>currentDisplayMode := MODE_MESSAGE, messageindex := 9\<rparr>
                    else g1\<lparr>currentDisplayMode := MODE_TIME\<rparr>))
         else normalBlanking isWeekend withinDisplayWindow g1))"

text \<open>
  The snooze dispatch of \<^verbatim>\<open>DispatchSwitches\<close>. \<open>snooze_guard\<close> is the condition
  \<^verbatim>\<open>sw_5.changed && (info.model != (MODEL_GC_1092D || MODEL_BOGUS))\<close> evaluated by the
  rules of C++: the operands of \<^verbatim>\<open>||\<close> are converted to \<^verbatim>\<open>bool\<close> (non-zero is true),
  and for \<^verbatim>\<open>!=\<close> both the enum (underlying type \<^verbatim>\<open>uint8_t\<close>) and the \<^verbatim>\<open>bool\<close> are
  promoted to \<^verbatim>\<open>int\<close>, \<^verbatim>\<open>true\<close> becoming 1.
\<close>

definition snooze_guard :: "DebouncedSwitch \<Rightarrow> EmulationInfo \<Rightarrow> bool" where
  "snooze_guard sw i =
     (changed sw \<and>
      uint (Model_code (model i)) \<noteq>
        of_bool (uint (Model_code MODEL_GC_1092D) \<noteq> 0 \<or> uint (Model_code MODEL_BOGUS) \<noteq> 0))"

text \<open>
  The guard the spec takes to be intended: the switch changed and the model is neither
  \<^verbatim>\<open>MODEL_GC_1092D\<close> nor \<^verbatim>\<open>MODEL_BOGUS\<close>. It follows the spec's words, not the source.
\<close>

definition intended_snooze_guard :: "DebouncedSwitch \<Rightarrow> EmulationInfo \<Rightarrow> bool" where
  "intended_snooze_guard sw i =
     (changed sw \<and> model i \<noteq> MODEL_GC_1092D \<and> model i \<noteq> MODEL_BOGUS)"

text \<open>
  The statement \<^verbatim>\<open>if (sw_5.changed && ...) requestSnooze();\<close> where it stands in
  \<^verbatim>\<open>DispatchSwitches\<close>, inside \<^verbatim>\<open>if (info.emulation == MK5017)\<close>. The other
  statements of \<^verbatim>\<open>DispatchSwitches\<close> (set mode, OTA, alarm enable, 12/24) are not
  modelled; none of them writes \<open>sw_5\<close> or \<open>info\<close>.
\<close>

definition DispatchSwitches_snooze :: "globals \<Rightarrow> globals" where
  "DispatchSwitches_snooze g =
     (if emulation (info g) = MK5017 then
        (if snooze_guard (sw_5 g) (info g) then requestSnooze g else g)
      else g)"

section \<open>Persisted emulation and model\<close>

text \<open>
  The byte store behind \<^verbatim>\<open>EEPROM.read\<close>, by address. \<^verbatim>\<open>loadEEPROM\<close> reads
  \<open>EEPROM_ADDR_EMULATION\<close> and \<open>EEPROM_ADDR_MODEL\<close>.
\<close>

type_synonym eeprom = "nat \<Rightarrow> 8 word"

definition EEPROM_ADDR_EMULATION :: nat where
  "EEPROM_ADDR_EMULATION = 0"

definition EEPROM_ADDR_MODEL :: nat where
  "EEPROM_ADDR_MODEL = 1"

definition loadEEPROM :: "eeprom \<Rightarrow> EmulationInfo" where
  "loadEEPROM EEPROM =
     (let e = EEPROM EEPROM_ADDR_EMULATION;
          md = EEPROM EEPROM_ADDR_MODEL;
          emu = (if e < EmulationCount then Emulation_of e else defaultEmulation);
          mdl = (if md < ModelCount then Model_of md else defaultModel)
      in \<lparr>emulation = emu, model = mdl\<rparr>)"

section \<open>Reference states\<close>

text \<open>
  The globals as their initialisers leave them before \<^verbatim>\<open>setup()\<close> runs (a global
  without initialiser is zero). The concrete instances of the theorems below start here.
\<close>

definition initial_switch :: DebouncedSwitch where
  "initial_switch =
     \<lparr>state = False, changed = False, lastRead = False, lastChange = 0, changedAt = 0\<rparr>"

definition initial_globals :: globals where
  "initial_globals =
     \<lparr>timeBlankingEnabled = True, ontime = 73000, offtime = 180000,
      weekendBlankingEnabled = True, weekendDay1 = ''Saturday'', weekendDay2 = ''Sunday'',
      toneActive = False, datecounter = 0, manualOverride = False, overrideForBlank = False,
      touchoverride = False, currentDisplayMode = MODE_MESSAGE, messageindex = 7,
      info = \<lparr>emulation = WIFI, model = MODEL_GC_1005\<rparr>, sw_5 = initial_switch,
      topOfSecond = False, halfSecond = False, minutes = 0, inEditMode = False,
      autoDate = False, alarmState = ALARM_IDLE, alarmEnabled = False,
      timeSeconds = - 1, alarmSeconds = 0, snoozeTargetS = 0, serial = [], rmt = []\<rparr>"

text \<open>
  A touch has put the date on display for three more seconds, and it is a Saturday evening
  after the display window: both blanking rules ask for a blank display.
\<close>

definition blank_window_date :: globals where
  "blank_window_date =
     initial_globals\<lparr>currentDisplayMode := MODE_DATE, datecounter := 3, touchoverride := True\<rparr>"

definition saturday_evening :: tz_reading where
  "saturday_evening = \<lparr>His_toInt = 213000, day_l = ''Saturday'', second = 0\<rparr>"





text \<open>The switch as one call of \<^verbatim>\<open>debounceSwitch\<close> leaves it.\<close>

abbreviation after_call :: "DebouncedSwitch \<Rightarrow> bool \<Rightarrow> 32 word \<Rightarrow> DebouncedSwitch" where
  "after_call sw raw t \<equiv> snd (debounceSwitch sw raw t)"

section \<open>Tone start and stop\<close>

lemma toneActive_alarmToneStop: "\<not> toneActive (alarmToneStop g)"
  by (simp add: alarmToneStop_def Serial_println_def)

text \<open>A stop reaches the peripheral exactly when the tone was active.\<close>

lemma rmt_alarmToneStop:
  "rmt (alarmToneStop g) = rmt g @ (if toneActive g then [rmt_tx_stop] else [])"
  by (simp add: alarmToneStop_def Serial_println_def)

text \<open>
  Claim C10. \<^verbatim>\<open>alarmToneStart\<close> returns at once when the tone is already active and
  \<^verbatim>\<open>alarmToneStop\<close> when it is already inactive: the whole state, the log of peripheral
  calls included, is unchanged. Hence a second call of either function changes nothing
  after the first, and after any call \<open>toneActive\<close> is the requested value.
\<close>

theorem tone_start_stop_idempotent:
  "(toneActive g \<longrightarrow> alarmToneStart g = g \<and> rmt (alarmToneStart g) = rmt g) \<and>
   (\<not> toneActive g \<longrightarrow> alarmToneStop g = g \<and> rmt (alarmToneStop g) = rmt g) \<and>
   alarmToneStart (alarmToneStart g) = alarmToneStart g \<and>
   alarmToneStop (alarmToneStop g) = alarmToneStop g \<and>
   toneActive (alarmToneStart g) \<and>
   \<not> toneActive (alarmToneStop g)"
  by (simp add: alarmToneStart_def alarmToneStop_def Serial_println_def)

text \<open>
  The instances: a start on an active tone, a stop on a silent one, and start, start, stop,
  stop from silence, which reaches the peripheral exactly twice.
\<close>

theorem tone_start_stop_idempotent_witness:
  "toneActive (initial_globals\<lparr>toneActive := True\<rparr>) \<and>
   alarmToneStart (initial_globals\<lparr>toneActive := True\<rparr>) = initial_globals\<lparr>toneActive := True\<rparr> \<and>
   \<not> toneActive initial_globals \<and>
   alarmToneStop initial_globals = initial_globals \<and>
   rmt (alarmToneStart initial_globals) = [rmt_write_items] \<and>
   rmt (alarmToneStart (alarmToneStart initial_globals)) = [rmt_write_items] \<and>
   rmt (alarmToneStop (alarmToneStart initial_globals)) = [rmt_write_items, rmt_tx_stop] \<and>
   rmt (alarmToneStop (alarmToneStop (alarmToneStart initial_globals))) =
     [rmt_write_items, rmt_tx_stop]"
  using tone_start_stop_idempotent [of "initial_globals\<lparr>toneActive := True\<rparr>"]
        tone_start_stop_idempotent [of initial_globals]
        tone_start_stop_idempotent [of "alarmToneStart initial_globals"]
  by (simp add: initial_globals_def alarmToneStart_def alarmToneStop_def Serial_println_def)

section \<open>Tone driver\<close>

text \<open>
  Claim C9. \<^verbatim>\<open>alarmToneDriver\<close> leaves \<open>alarmState\<close> alone, and after it the tone is
  active only in state SOUNDING: in every other state the driver is \<^verbatim>\<open>alarmToneStop\<close>,
  which clears \<open>toneActive\<close> and, when the tone was active, sends the stop to the pulse
  peripheral. In state SOUNDING the top-of-second pulse starts the burst (the waveform is
  written to the peripheral unless a burst is already marked active), the half-second
  pulse stops it (the stop is sent to the peripheral; when both pulses are set in the same
  pass the burst is started and stopped in that pass), and without a pulse nothing
  changes.
\<close>

theorem tone_silent_outside_sounding:
  "alarmState (alarmToneDriver g) = alarmState g \<and>
   (toneActive (alarmToneDriver g) \<longrightarrow> alarmState g = ALARM_SOUNDING) \<and>
   (alarmState g \<noteq> ALARM_SOUNDING \<longrightarrow>
      alarmToneDriver g = alarmToneStop g \<and>
      \<not> toneActive (alarmToneDriver g) \<and>
      rmt (alarmToneDriver g) = rmt g @ (if toneActive g then [rmt_tx_stop] else [])) \<and>
   (alarmState g = ALARM_SOUNDING \<and> topOfSecond g \<and> \<not> halfSecond g \<longrightarrow>
      alarmToneDriver g = alarmToneStart g \<and> toneActive (alarmToneDriver g) \<and>
      rmt (alarmToneDriver g) = rmt g @ (if toneActive g then [] else [rmt_write_items])) \<and>
   (alarmState g = ALARM_SOUNDING \<and> halfSecond g \<longrightarrow>
      \<not> toneActive (alarmToneDriver g) \<and>
      rmt (alarmToneDriver g) =
        rmt g @ (if topOfSecond g \<and> \<not> toneActive g then [rmt_write_items, rmt_tx_stop]
                 else if toneActive g then [rmt_tx_stop] else [])) \<and>
   (alarmState g = ALARM_SOUNDING \<and> \<not> topOfSecond g \<and> \<not> halfSecond g \<longrightarrow>
      alarmToneDriver g = g)"
  by (simp add: alarmToneDriver_def alarmToneStart_def alarmToneStop_def Serial_println_def Let_def)

text \<open>
  The instances: a tone left active in state SNOOZE is cut at the peripheral; a
  top-of-second pulse in state SOUNDING writes the waveform; a half-second pulse sends the
  stop; both pulses in one pass write and stop; and a pass without a pulse leaves a running
  burst alone.
\<close>

theorem tone_silent_outside_sounding_witness:
  "\<not> toneActive (alarmToneDriver (initial_globals\<lparr>alarmState := ALARM_SNOOZE, toneActive := True\<rparr>)) \<and>
   rmt (alarmToneDriver (initial_globals\<lparr>alarmState := ALARM_SNOOZE, toneActive := True\<rparr>)) =
     [rmt_tx_stop] \<and>
   toneActive (alarmToneDriver (initial_globals\<lparr>alarmState := ALARM_SOUNDING, topOfSecond := True\<rparr>)) \<and>
   rmt (alarmToneDriver (initial_globals\<lparr>alarmState := ALARM_SOUNDING, topOfSecond := True\<rparr>)) =
     [rmt_write_items] \<and>
   \<not> toneActive (alarmToneDriver
       (initial_globals\<lparr>alarmState := ALARM_SOUNDING, toneActive := True, halfSecond := True\<rparr>)) \<and>
   rmt (alarmToneDriver
       (initial_globals\<lparr>alarmState := ALARM_SOUNDING, toneActive := True, halfSecond := True\<rparr>)) =
     [rmt_tx_stop] \<and>
   rmt (alarmToneDriver
       (initial_globals\<lparr>alarmState := ALARM_SOUNDING, topOfSecond := True, halfSecond := True\<rparr>)) =
     [rmt_write_items, rmt_tx_stop] \<and>
   alarmToneDriver (initial_globals\<lparr>alarmState := ALARM_SOUNDING, toneActive := True\<rparr>) =
     initial_globals\<lparr>alarmState := ALARM_SOUNDING, toneActive := True\<rparr>"
  using
    tone_silent_outside_sounding
      [of "initial_globals\<lparr>alarmState := ALARM_SOUNDING, toneActive := True\<rparr>"]
    tone_silent_outside_sounding
      [of "initial_globals\<lparr>alarmState := ALARM_SNOOZE, toneActive := True\<rparr>"]
    tone_silent_outside_sounding
      [of "initial_globals\<lparr>alarmState := ALARM_SOUNDING, topOfSecond := True\<rparr>"]
    tone_silent_outside_sounding
      [of "initial_globals\<lparr>alarmState := ALARM_SOUNDING, toneActive := True, halfSecond := True\<rparr>"]
    tone_silent_outside_sounding
      [of "initial_globals\<lparr>alarmState := ALARM_SOUNDING, topOfSecond := True, halfSecond := True\<rparr>"]
  by (simp add: initial_globals_def alarmToneStart_def alarmToneStop_def Serial_println_def)

section \<open>Alarm lifecycle\<close>

text \<open>
  On the 24-hour dial the wrapped \<^verbatim>\<open>uint32_t\<close> difference is at least as large as the
  number of seconds since the alarm time: past midnight the difference wraps to a value
  near \<open>2 ^ 32\<close>.
\<close>

lemma elapsed_of_day_word:
  fixes t a :: "32 word"
  assumes "unat t < 86400" and "unat a < 86400" and "3600 \<le> elapsed_of_day t a"
  shows "3600 \<le> t - a"
proof -
  have "unat (t - a) = (if unat a \<le> unat t then unat t - unat a else unat t + 2 ^ 32 - unat a)"
    by (simp add: unat_sub_if_size word_size)
  with assms have "3600 \<le> unat (t - a)"
    by (simp add: elapsed_of_day_def split: if_splits)
  then show ?thesis
    by (simp add: word_le_nat_alt)
qed

text \<open>
  Claim C1. A call of \<^verbatim>\<open>updateAlarm\<close> in state ARMED with the alarm enabled and
  \<open>timeSeconds = alarmSeconds\<close> ends in state SOUNDING. A call in state SOUNDING with the
  alarm still enabled and at least 3600 seconds elapsed since the alarm time ends in state
  IDLE with the tone stopped: \<open>toneActive\<close> is clear and, when the tone was active, the
  stop has been sent to the pulse peripheral. "Elapsed" is taken both ways: as the code
  computes it (the wrapped 32-bit difference \<open>timeSeconds - alarmSeconds\<close>), and as
  seconds on the 24-hour dial for times of day below 86400.
\<close>

theorem alarm_sounding_lifecycle:
  "(alarmState g = ALARM_ARMED \<and> alarmEnabled g \<and> timeSeconds g = alarmSeconds g \<longrightarrow>
      alarmState (updateAlarm g) = ALARM_SOUNDING) \<and>
   (alarmState g = ALARM_SOUNDING \<and> alarmEnabled g \<and> 3600 \<le> timeSeconds g - alarmSeconds g \<longrightarrow>
      alarmState (updateAlarm g) = ALARM_IDLE \<and> \<not> toneActive (updateAlarm g) \<and>
      rmt (updateAlarm g) = rmt g @ (if toneActive g then [rmt_tx_stop] else [])) \<and>
   (alarmState g = ALARM_SOUNDING \<and> alarmEnabled g \<and>
    unat (timeSeconds g) < 86400 \<and> unat (alarmSeconds g) < 86400 \<and>
    3600 \<le> elapsed_of_day (timeSeconds g) (alarmSeconds g) \<longrightarrow>
      alarmState (updateAlarm g) = ALARM_IDLE \<and> \<not> toneActive (updateAlarm g) \<and>
      rmt (updateAlarm g) = rmt g @ (if toneActive g then [rmt_tx_stop] else []))"
proof -
  have armed: "alarmState (updateAlarm g) = ALARM_SOUNDING"
    if "alarmState g = ALARM_ARMED" "alarmEnabled g" "timeSeconds g = alarmSeconds g"
    using that by (simp add: updateAlarm_def Serial_println_def)
  have expired: "alarmState (updateAlarm g) = ALARM_IDLE \<and> \<not> toneActive (updateAlarm g) \<and>
      rmt (updateAlarm g) = rmt g @ (if toneActive g then [rmt_tx_stop] else [])"
    if "alarmState g = ALARM_SOUNDING" "alarmEnabled g" "3600 \<le> timeSeconds g - alarmSeconds g"
    using that
    by (simp add: updateAlarm_def ALARM_MAX_MIN_def Serial_println_def toneActive_alarmToneStop
        rmt_alarmToneStop)
  from armed expired elapsed_of_day_word show ?thesis
    by blast
qed

text \<open>
  The instances: alarm at 06:30:00 reached; the same alarm still sounding at 07:30:00,
  where the stop goes to the peripheral; an alarm at 23:30:00 still sounding at 00:30:00
  the next day.
\<close>

theorem alarm_sounding_lifecycle_witness:
  "alarmState (updateAlarm (initial_globals\<lparr>alarmState := ALARM_ARMED, alarmEnabled := True,
      timeSeconds := 23400, alarmSeconds := 23400\<rparr>)) = ALARM_SOUNDING \<and>
   alarmState (updateAlarm (initial_globals\<lparr>alarmState := ALARM_SOUNDING, alarmEnabled := True,
      toneActive := True, timeSeconds := 27000, alarmSeconds := 23400\<rparr>)) = ALARM_IDLE \<and>
   \<not> toneActive (updateAlarm (initial_globals\<lparr>alarmState := ALARM_SOUNDING, alarmEnabled := True,
      toneActive := True, timeSeconds := 27000, alarmSeconds := 23400\<rparr>)) \<and>
   rmt (updateAlarm (initial_globals\<lparr>alarmState := ALARM_SOUNDING, alarmEnabled := True,
      toneActive := True, timeSeconds := 27000, alarmSeconds := 23400\<rparr>)) = [rmt_tx_stop] \<and>
   elapsed_of_day 1800 84600 = 3600 \<and>
   alarmState (updateAlarm (initial_globals\<lparr>alarmState := ALARM_SOUNDING, alarmEnabled := True,
      toneActive := True, timeSeconds := 1800, alarmSeconds := 84600\<rparr>)) = ALARM_IDLE \<and>
   rmt (updateAlarm (initial_globals\<lparr>alarmState := ALARM_SOUNDING, alarmEnabled := True,
      toneActive := True, timeSeconds := 1800, alarmSeconds := 84600\<rparr>)) = [rmt_tx_stop]"
  using
    alarm_sounding_lifecycle [of "initial_globals\<lparr>alarmState := ALARM_ARMED, alarmEnabled := True,
      timeSeconds := 23400, alarmSeconds := 23400\<rparr>"]
    alarm_sounding_lifecycle [of "initial_globals\<lparr>alarmState := ALARM_SOUNDING, alarmEnabled := True,
      toneActive := True, timeSeconds := 27000, alarmSeconds := 23400\<rparr>"]
    alarm_sounding_lifecycle [of "initial_globals\<lparr>alarmState := ALARM_SOUNDING, alarmEnabled := True,
      toneActive := True, timeSeconds := 1800, alarmSeconds := 84600\<rparr>"]
  by (simp add: elapsed_of_day_def initial_globals_def)

section \<open>Snooze\<close>

text \<open>
  Claim C2. When \<^verbatim>\<open>requestSnooze\<close> is called in state SOUNDING at time of day \<open>T\<close>, it
  sets \<open>snoozeTargetS\<close> to \<open>T + 420\<close> (no wrap-around for a time of day, which is below
  86400), stops the tone (\<open>toneActive\<close> is clear and, when the tone was active, the stop
  has been sent to the pulse peripheral) and moves to state SNOOZE. In every other state
  (IDLE, ARMED, SNOOZE) it only prints its serial line: \<open>alarmState\<close>, \<open>snoozeTargetS\<close>,
  \<open>toneActive\<close> and the peripheral are untouched.
\<close>

theorem snooze_semantics:
  "(alarmState g = ALARM_SOUNDING \<longrightarrow>
      snoozeTargetS (requestSnooze g) = timeSeconds g + 420 \<and>
      \<not> toneActive (requestSnooze g) \<and>
      rmt (requestSnooze g) = rmt g @ (if toneActive g then [rmt_tx_stop] else []) \<and>
      alarmState (requestSnooze g) = ALARM_SNOOZE) \<and>
   (alarmState g = ALARM_SOUNDING \<and> unat (timeSeconds g) < 86400 \<longrightarrow>
      unat (snoozeTargetS (requestSnooze g)) = unat (timeSeconds g) + 420) \<and>
   (alarmState g \<noteq> ALARM_SOUNDING \<longrightarrow>
      requestSnooze g = Serial_println ''Snooze'' g \<and>
      alarmState (requestSnooze g) = alarmState g \<and>
      snoozeTargetS (requestSnooze g) = snoozeTargetS g \<and>
      toneActive (requestSnooze g) = toneActive g \<and>
      rmt (requestSnooze g) = rmt g)"
proof -
  have target: "snoozeTargetS (requestSnooze g) = timeSeconds g + 420"
    if "alarmState g = ALARM_SOUNDING"
    using that
    by (simp add: requestSnooze_def SNOOZE_MIN_def Serial_println_def alarmToneStop_def Let_def)
  have rest: "\<not> toneActive (requestSnooze g) \<and> alarmState (requestSnooze g) = ALARM_SNOOZE \<and>
      rmt (requestSnooze g) = rmt g @ (if toneActive g then [rmt_tx_stop] else [])"
    if "alarmState g = ALARM_SOUNDING"
    using that
    by (simp add: requestSnooze_def Serial_println_def alarmToneStop_def Let_def)
  have nowrap: "unat (timeSeconds g + 420) = unat (timeSeconds g) + 420"
    if "unat (timeSeconds g) < 86400"
    using that by (simp add: unat_plus_if_size word_size)
  have noop: "requestSnooze g = Serial_println ''Snooze'' g"
    if "alarmState g \<noteq> ALARM_SOUNDING"
    using that by (simp add: requestSnooze_def Serial_println_def Let_def)
  from target rest nowrap noop show ?thesis
    by (simp add: Serial_println_def)
qed

text \<open>
  The instances: a snooze at 06:30:05 while sounding sets the target to 06:37:05 and sends
  the stop to the peripheral; a snooze in state ARMED leaves state, target, tone and
  peripheral as they were.
\<close>

theorem snooze_semantics_witness:
  "snoozeTargetS (requestSnooze (initial_globals\<lparr>alarmState := ALARM_SOUNDING, toneActive := True,
      timeSeconds := 23405\<rparr>)) = 23825 \<and>
   \<not> toneActive (requestSnooze (initial_globals\<lparr>alarmState := ALARM_SOUNDING, toneActive := True,
      timeSeconds := 23405\<rparr>)) \<and>
   rmt (requestSnooze (initial_globals\<lparr>alarmState := ALARM_SOUNDING, toneActive := True,
      timeSeconds := 23405\<rparr>)) = [rmt_tx_stop] \<and>
   alarmState (requestSnooze (initial_globals\<lparr>alarmState := ALARM_SOUNDING, toneActive := True,
      timeSeconds := 23405\<rparr>)) = ALARM_SNOOZE \<and>
   alarmState (requestSnooze (initial_globals\<lparr>alarmState := ALARM_ARMED, toneActive := True\<rparr>))
     = ALARM_ARMED \<and>
   toneActive (requestSnooze (initial_globals\<lparr>alarmState := ALARM_ARMED, toneActive := True\<rparr>)) \<and>
   rmt (requestSnooze (initial_globals\<lparr>alarmState := ALARM_ARMED, toneActive := True\<rparr>)) = [] \<and>
   snoozeTargetS (requestSnooze (initial_globals\<lparr>alarmState := ALARM_ARMED, toneActive := True\<rparr>))
     = 0"
  using
    snooze_semantics [of "initial_globals\<lparr>alarmState := ALARM_SOUNDING, toneActive := True,
      timeSeconds := 23405\<rparr>"]
    snooze_semantics [of "initial_globals\<lparr>alarmState := ALARM_ARMED, toneActive := True\<rparr>"]
  by (simp add: initial_globals_def Serial_println_def)

section \<open>Persisted state\<close>

lemma u8_below_2:
  fixes w :: "8 word"
  assumes "w < 2"
  shows "w = 0 \<or> w = 1"
proof -
  from assms have "unat w < 2"
    by (simp add: word_less_nat_alt)
  then have "unat w = 0 \<or> unat w = 1"
    by arith
  then show ?thesis
    by (simp add: word_unat_eq_iff)
qed

lemma u8_below_5:
  fixes w :: "8 word"
  assumes "w < 5"
  shows "w = 0 \<or> w = 1 \<or> w = 2 \<or> w = 3 \<or> w = 4"
proof -
  from assms have "unat w < 5"
    by (simp add: word_less_nat_alt)
  then have "unat w = 0 \<or> unat w = 1 \<or> unat w = 2 \<or> unat w = 3 \<or> unat w = 4"
    by arith
  then show ?thesis
    by (simp add: word_unat_eq_iff)
qed

text \<open>In range, the casts give the enumerator whose value is the stored byte.\<close>

lemma Emulation_code_of: "e < EmulationCount \<Longrightarrow> Emulation_code (Emulation_of e) = e"
  using u8_below_2 [of e] by (auto simp add: EmulationCount_def Emulation_of_def)

lemma Model_code_of: "md < ModelCount \<Longrightarrow> Model_code (Model_of md) = md"
  using u8_below_5 [of md] by (auto simp add: ModelCount_def Model_of_def)

text \<open>
  Claim C8. For every content of the byte store, \<^verbatim>\<open>loadEEPROM\<close> returns the emulation
  whose enumerator value is the byte at offset 0 when that byte is below \<open>EmulationCount\<close>,
  and \<open>WIFI\<close> otherwise; it returns the model whose enumerator value is the byte at offset
  1 when that byte is below \<open>ModelCount\<close>, and \<open>MODEL_GC_1005\<close> otherwise. A stored
  emulation byte of 99 gives \<open>WIFI\<close>. The function is total: it has no failing branch.
\<close>

theorem loadEEPROM_fallback:
  "(EEPROM EEPROM_ADDR_EMULATION < EmulationCount \<longrightarrow>
      Emulation_code (emulation (loadEEPROM EEPROM)) = EEPROM EEPROM_ADDR_EMULATION) \<and>
   (\<not> EEPROM EEPROM_ADDR_EMULATION < EmulationCount \<longrightarrow>
      emulation (loadEEPROM EEPROM) = WIFI) \<and>
   (EEPROM EEPROM_ADDR_MODEL < ModelCount \<longrightarrow>
      Model_code (model (loadEEPROM EEPROM)) = EEPROM EEPROM_ADDR_MODEL) \<and>
   (\<not> EEPROM EEPROM_ADDR_MODEL < ModelCount \<longrightarrow>
      model (loadEEPROM EEPROM) = MODEL_GC_1005) \<and>
   (EEPROM EEPROM_ADDR_EMULATION = 99 \<longrightarrow> emulation (loadEEPROM EEPROM) = WIFI)"
  by (simp add: loadEEPROM_def Let_def Emulation_code_of Model_code_of
      defaultEmulation_def defaultModel_def EmulationCount_def)

text \<open>
  The instances: a store holding 99 and 3 (emulation out of range, model in range), and a
  store holding 1 and 5 (emulation in range, model out of range).
\<close>

theorem loadEEPROM_fallback_witness:
  "loadEEPROM ((\<lambda>_. 255)(0 := 99, 1 := 3)) = \<lparr>emulation = WIFI, model = MODEL_GC_1094\<rparr> \<and>
   loadEEPROM ((\<lambda>_. 255)(0 := 1, 1 := 5)) = \<lparr>emulation = MK5017, model = MODEL_GC_1005\<rparr>"
  using loadEEPROM_fallback [of "(\<lambda>_. 255)(0 := 99, 1 := 3)"]
        loadEEPROM_fallback [of "(\<lambda>_. 255)(0 := 1, 1 := 5)"]
  by (simp add: loadEEPROM_def Let_def EEPROM_ADDR_EMULATION_def EEPROM_ADDR_MODEL_def
      EmulationCount_def ModelCount_def Emulation_of_def Model_of_def
      defaultEmulation_def defaultModel_def)

section \<open>Snooze dispatch guard\<close>

lemma snooze_guard_code: "snooze_guard sw i = (changed sw \<and> model i \<noteq> MODEL_GC_1092D)"
  by (cases "model i") (simp_all add: snooze_guard_def)

lemma serial_requestSnooze:
  "serial (requestSnooze g) =
     serial g @ [''Snooze''] @
       (if alarmState g = ALARM_SOUNDING \<and> toneActive g then [''AlarmStop''] else [])"
  by (simp add: requestSnooze_def Serial_println_def alarmToneStop_def Let_def)

text \<open>
  Claim C6. The guard of the snooze dispatch compares the model with the truth value of
  \<^verbatim>\<open>MODEL_GC_1092D || MODEL_BOGUS\<close>, which is 1: for every switch and model it equals
  "\<open>sw_5\<close> changed and the model is not \<open>MODEL_GC_1092D\<close>". It differs from the intended
  guard exactly when the switch changed and the model is \<open>MODEL_BOGUS\<close>; there, in MK5017
  emulation, the dispatch is a call of \<^verbatim>\<open>requestSnooze\<close>, visible in the serial log.
\<close>

theorem snooze_guard_ignores_bogus:
  "snooze_guard sw i = (changed sw \<and> model i \<noteq> MODEL_GC_1092D) \<and>
   (snooze_guard sw i \<noteq> intended_snooze_guard sw i \<longleftrightarrow> changed sw \<and> model i = MODEL_BOGUS) \<and>
   (emulation (info g) = MK5017 \<and> model (info g) = MODEL_BOGUS \<and> changed (sw_5 g) \<longrightarrow>
      snooze_guard (sw_5 g) (info g) \<and>
      \<not> intended_snooze_guard (sw_5 g) (info g) \<and>
      DispatchSwitches_snooze g = requestSnooze g \<and>
      serial (DispatchSwitches_snooze g) =
        serial g @ [''Snooze''] @
          (if alarmState g = ALARM_SOUNDING \<and> toneActive g then [''AlarmStop''] else []))"
proof -
  have differ:
    "(snooze_guard sw i \<noteq> intended_snooze_guard sw i) = (changed sw \<and> model i = MODEL_BOGUS)"
    by (cases "model i") (simp_all add: snooze_guard_code intended_snooze_guard_def)
  have dispatch: "DispatchSwitches_snooze g = requestSnooze g"
    if "emulation (info g) = MK5017" "model (info g) = MODEL_BOGUS" "changed (sw_5 g)"
    using that by (simp add: DispatchSwitches_snooze_def snooze_guard_code)
  from differ dispatch show ?thesis
    by (simp add: snooze_guard_code intended_snooze_guard_def serial_requestSnooze)
qed

text \<open>
  The instance: MK5017 emulation, model still \<open>MODEL_BOGUS\<close>, alarm sounding, snooze switch
  changed. The snooze is taken.
\<close>

theorem snooze_guard_ignores_bogus_witness:
  "snooze_guard (initial_switch\<lparr>changed := True\<rparr>) \<lparr>emulation = MK5017, model = MODEL_BOGUS\<rparr> \<and>
   \<not> intended_snooze_guard (initial_switch\<lparr>changed := True\<rparr>)
       \<lparr>emulation = MK5017, model = MODEL_BOGUS\<rparr> \<and>
   alarmState (DispatchSwitches_snooze
     (initial_globals\<lparr>info := \<lparr>emulation = MK5017, model = MODEL_BOGUS\<rparr>,
        sw_5 := initial_switch\<lparr>changed := True\<rparr>, alarmState := ALARM_SOUNDING,
        timeSeconds := 23405\<rparr>)) = ALARM_SNOOZE \<and>
   serial (DispatchSwitches_snooze
     (initial_globals\<lparr>info := \<lparr>emulation = MK5017, model = MODEL_BOGUS\<rparr>,
        sw_5 := initial_switch\<lparr>changed := True\<rparr>, alarmState := ALARM_SOUNDING,
        timeSeconds := 23405\<rparr>)) = [''Snooze'']"
  using
    snooze_guard_ignores_bogus
      [of "initial_switch\<lparr>changed := True\<rparr>" "\<lparr>emulation = MK5017, model = MODEL_BOGUS\<rparr>"
          "initial_globals\<lparr>info := \<lparr>emulation = MK5017, model = MODEL_BOGUS\<rparr>,
             sw_5 := initial_switch\<lparr>changed := True\<rparr>, alarmState := ALARM_SOUNDING,
             timeSeconds := 23405\<rparr>"]
  by (simp add: intended_snooze_guard_def requestSnooze_def Serial_println_def alarmToneStop_def
      Let_def initial_globals_def)

section \<open>Minute ones digit\<close>

lemma minutes_updateStrings: "minutes (updateStrings g) = minutes g"
  by (simp add: updateStrings_def updateDisplayValue_def Serial_println_def
      split: DisplayMode.split)

lemma minutes_incrementMinuteOnes:
  "minutes (incrementMinuteOnes g) =
     word_of_int (uint (minutes g div 10) * 10 +
       uint (word_of_int ((uint (minutes g mod 10) + 1) mod 10) :: 8 word))"
  by (simp add: incrementMinuteOnes_def Let_def minutes_updateStrings)

text \<open>For minutes up to 59 neither truncation to eight bits loses anything.\<close>

lemma ones_increment:
  fixes m :: "8 word"
  assumes "uint m \<le> 59"
  shows "uint (word_of_int (uint (m div 10) * 10 +
                 uint (word_of_int ((uint (m mod 10) + 1) mod 10) :: 8 word)) :: 8 word)
         = uint m div 10 * 10 + (uint m mod 10 + 1) mod 10"
proof -
  define k where "k = uint m"
  have k: "0 \<le> k" "k \<le> 59"
    using assms by (simp_all add: k_def)
  have ten: "uint (10 :: 8 word) = 10"
    by simp
  have len8: "LENGTH(8) = 8"
    by simp
  have ones: "0 \<le> (k mod 10 + 1) mod 10" "(k mod 10 + 1) mod 10 < 10"
    by simp_all
  have tens: "0 \<le> k div 10" "k div 10 \<le> 5"
    using k by simp_all
  have inner: "((k mod 10 + 1) mod 10) mod 2 ^ 8 = (k mod 10 + 1) mod 10"
    using ones by simp
  have outer:
    "(k div 10 * 10 + (k mod 10 + 1) mod 10) mod 2 ^ 8 = k div 10 * 10 + (k mod 10 + 1) mod 10"
    using ones tens by simp
  have "uint (word_of_int (uint (m div 10) * 10 +
                 uint (word_of_int ((uint (m mod 10) + 1) mod 10) :: 8 word)) :: 8 word)
        = (k div 10 * 10 + ((k mod 10 + 1) mod 10) mod 2 ^ 8) mod 2 ^ 8"
    by (simp only: uint_word_of_int uint_div uint_mod ten k_def len8)
  also have "\<dots> = k div 10 * 10 + (k mod 10 + 1) mod 10"
    by (simp only: inner outer)
  finally show ?thesis
    by (simp only: k_def)
qed

text \<open>
  Claim C4. For every minutes value from 0 to 59, \<^verbatim>\<open>incrementMinuteOnes\<close> keeps the tens
  digit and replaces the ones digit by \<open>(ones + 1) mod 10\<close>; from 59 the result is 50.
\<close>

theorem minute_ones_increment:
  "(uint (minutes g) \<le> 59 \<longrightarrow>
      uint (minutes (incrementMinuteOnes g)) div 10 = uint (minutes g) div 10 \<and>
      uint (minutes (incrementMinuteOnes g)) mod 10 = (uint (minutes g) mod 10 + 1) mod 10) \<and>
   (minutes g = 59 \<longrightarrow> minutes (incrementMinuteOnes g) = 50)"
proof -
  have val: "uint (minutes (incrementMinuteOnes g))
               = uint (minutes g) div 10 * 10 + (uint (minutes g) mod 10 + 1) mod 10"
    if "uint (minutes g) \<le> 59"
    using ones_increment [OF that]
    by (simp only: minutes_incrementMinuteOnes)
  have "minutes (incrementMinuteOnes g) = 50" if "minutes g = 59"
  proof -
    have "uint (minutes g) \<le> 59" using that by simp
    from val [OF this] have "uint (minutes (incrementMinuteOnes g)) = 50"
      using that by simp
    then show ?thesis
      by (metis uint_numeral word_of_int_uint word_of_int_numeral)
  qed
  moreover have "uint (minutes (incrementMinuteOnes g)) div 10 = uint (minutes g) div 10 \<and>
      uint (minutes (incrementMinuteOnes g)) mod 10 = (uint (minutes g) mod 10 + 1) mod 10"
    if "uint (minutes g) \<le> 59"
  proof -
    have "0 \<le> (uint (minutes g) mod 10 + 1) mod 10" "(uint (minutes g) mod 10 + 1) mod 10 < 10"
      by simp_all
    then show ?thesis
      unfolding val [OF that] by simp
  qed
  ultimately show ?thesis
    by blast
qed

text \<open>The instances: 59 becomes 50, and 37 becomes 38.\<close>

theorem minute_ones_increment_witness:
  "uint (59 :: 8 word) \<le> 59 \<and>
   minutes (incrementMinuteOnes (initial_globals\<lparr>minutes := 59\<rparr>)) = 50 \<and>
   uint (minutes (incrementMinuteOnes (initial_globals\<lparr>minutes := 37\<rparr>))) div 10 = 3 \<and>
   uint (minutes (incrementMinuteOnes (initial_globals\<lparr>minutes := 37\<rparr>))) mod 10 = 8"
  using minute_ones_increment [of "initial_globals\<lparr>minutes := 59\<rparr>"]
        minute_ones_increment [of "initial_globals\<lparr>minutes := 37\<rparr>"]
  by simp

section \<open>Debounce contract\<close>

text \<open>One call, field by field.\<close>

lemma debounce_step:
  "fst (debounceSwitch sw raw t) = changed (snd (debounceSwitch sw raw t))"
  "changed (snd (debounceSwitch sw raw t)) \<longleftrightarrow> state (snd (debounceSwitch sw raw t)) \<noteq> state sw"
  "lastRead (snd (debounceSwitch sw raw t)) = raw"
  "lastChange (snd (debounceSwitch sw raw t)) = (if raw \<noteq> lastRead sw then t else lastChange sw)"
  "state (snd (debounceSwitch sw raw t)) =
     (if t - lastChange (snd (debounceSwitch sw raw t)) > debounceDelay then raw else state sw)"
  by (auto simp add: debounceSwitch_def Let_def debounceDelay_def)

lemma debounce_flicker:
  assumes "raw \<noteq> lastRead sw"
  shows "lastChange (snd (debounceSwitch sw raw t)) = t"
    and "state (snd (debounceSwitch sw raw t)) = state sw"
    and "\<not> changed (snd (debounceSwitch sw raw t))"
  using assms by (simp_all add: debounceSwitch_def Let_def debounceDelay_def)

lemma debounce_held_step:
  assumes "lastRead sw = r"
  shows "lastRead (snd (debounceSwitch sw r t)) = r"
    and "lastChange (snd (debounceSwitch sw r t)) = lastChange sw"
    and "state (snd (debounceSwitch sw r t)) =
           (if t - lastChange sw > debounceDelay then r else state sw)"
    and "changed (snd (debounceSwitch sw r t)) =
           (t - lastChange sw > debounceDelay \<and> state sw \<noteq> r)"
  using assms by (auto simp add: debounceSwitch_def Let_def)

text \<open>A level that is held and already accepted: no call changes anything.\<close>

lemma held_settled:
  assumes "lastRead sw = r" and "state sw = r"
  shows "map changed (debounce_calls sw (held r ts)) = replicate (length ts) False \<and>
         map state (debounce_calls sw (held r ts)) = replicate (length ts) r"
  using assms
proof (induction ts arbitrary: sw)
  case Nil
  show ?case by (simp add: held_def)
next
  case (Cons t ts)
  let ?sw = "snd (debounceSwitch sw r t)"
  from Cons.prems have "lastRead ?sw = r" "state ?sw = r" "\<not> changed ?sw"
    by (simp_all add: debounce_held_step)
  with Cons.IH [of ?sw] show ?case
    by (simp add: held_def Let_def)
qed

text \<open>
  A level that is held and not yet accepted: the calls up to the first one that finds the
  quiet interval exceeded change nothing, that call flips the state and raises the flag,
  and the calls after it find the level accepted.
\<close>

lemma held_pending:
  assumes "lastRead sw = r" and "state sw \<noteq> r"
  shows "map changed (debounce_calls sw (held r ts)) =
           replicate (length (takeWhile (\<lambda>t. t - lastChange sw \<le> debounceDelay) ts)) False @
           (case dropWhile (\<lambda>t. t - lastChange sw \<le> debounceDelay) ts of
              [] \<Rightarrow> [] | t # rest \<Rightarrow> True # replicate (length rest) False) \<and>
         map state (debounce_calls sw (held r ts)) =
           replicate (length (takeWhile (\<lambda>t. t - lastChange sw \<le> debounceDelay) ts)) (state sw) @
           replicate (length (dropWhile (\<lambda>t. t - lastChange sw \<le> debounceDelay) ts)) r"
  using assms
proof (induction ts arbitrary: sw)
  case Nil
  show ?case by (simp add: held_def)
next
  case (Cons t ts)
  let ?sw = "snd (debounceSwitch sw r t)"
  show ?case
  proof (cases "t - lastChange sw \<le> debounceDelay")
    case True
    with Cons.prems have "lastRead ?sw = r" "state ?sw = state sw" "\<not> changed ?sw"
      "lastChange ?sw = lastChange sw"
      by (simp_all add: debounce_held_step not_less [symmetric])
    with Cons.IH [of ?sw] Cons.prems True show ?thesis
      by (simp add: held_def Let_def)
  next
    case False
    with Cons.prems have "lastRead ?sw = r" "state ?sw = r" "changed ?sw"
      by (simp_all add: debounce_held_step not_le)
    with held_settled [of ?sw r ts] False show ?thesis
      by (simp add: held_def Let_def)
  qed
qed

text \<open>
  A level sampled for the first time: the call that sees the transition restarts the
  timer at its own time, and the held run after it is measured from there.
\<close>

lemma held_from_transition:
  assumes "lastRead sw \<noteq> r" and "state sw \<noteq> r"
  shows "map changed (debounce_calls sw (held r (t0 # ts))) =
           False #
           replicate (length (takeWhile (\<lambda>t. t - t0 \<le> debounceDelay) ts)) False @
           (case dropWhile (\<lambda>t. t - t0 \<le> debounceDelay) ts of
              [] \<Rightarrow> [] | t # rest \<Rightarrow> True # replicate (length rest) False) \<and>
         map state (debounce_calls sw (held r (t0 # ts))) =
           state sw #
           replicate (length (takeWhile (\<lambda>t. t - t0 \<le> debounceDelay) ts)) (state sw) @
           replicate (length (dropWhile (\<lambda>t. t - t0 \<le> debounceDelay) ts)) r"
proof -
  let ?sw = "snd (debounceSwitch sw r t0)"
  from assms have first: "lastRead ?sw = r" "lastChange ?sw = t0" "state ?sw = state sw"
    "\<not> changed ?sw"
    using debounce_flicker [of r sw t0] by (simp_all add: debounce_step(3))
  with assms have "state ?sw \<noteq> r"
    by simp
  from held_pending [OF first(1) this, of ts] first show ?thesis
    by (simp add: held_def Let_def)
qed

text \<open>
  Claim C3. Time is what the code measures: the \<^verbatim>\<open>uint32_t\<close> difference between the
  \<^verbatim>\<open>micros()\<close> reading of the call and the reading stored at the last raw transition;
  a processing cycle is one call of \<^verbatim>\<open>debounceSwitch\<close> on the switch. For every
  switch and every call: the returned flag is the stored flag, and it is set exactly when
  this call flipped the stable state, whatever the flag was before (it is cleared first);
  the call records the raw level as the last sample; a raw level that differs from the
  previous sample restarts the timer at this call and leaves the stable state alone, and
  a level equal to the previous sample leaves the timer running; while the level has been
  constant for at most \<open>debounceDelay\<close> the stable state does not change; once it has
  been constant for longer and differs from the stable state, the state becomes the raw
  level and the flag is set.
  For a level \<open>r\<close> held over any sequence of calls at times \<open>ts\<close>, starting with a
  stable state other than \<open>r\<close>: the flag is clear and the state unchanged in every call
  before the first one that finds the interval exceeded, set in that call, which flips
  the state to \<open>r\<close>, and clear again in every later call, where the state stays \<open>r\<close>.
  This holds when \<open>r\<close> was already the last sample (the interval counts from the stored
  transition time), and when the first call of the run is the one that sees the
  transition (the interval counts from that call).
\<close>

theorem debounce_contract:
  "fst (debounceSwitch sw raw t) = changed (after_call sw raw t) \<and>
   (changed (after_call sw raw t) \<longleftrightarrow> state (after_call sw raw t) \<noteq> state sw) \<and>
   lastRead (after_call sw raw t) = raw \<and>
   lastChange (after_call sw raw t) = (if raw \<noteq> lastRead sw then t else lastChange sw) \<and>
   (raw \<noteq> lastRead sw \<longrightarrow>
      lastChange (after_call sw raw t) = t \<and> state (after_call sw raw t) = state sw) \<and>
   (t - lastChange (after_call sw raw t) \<le> debounceDelay \<longrightarrow>
      state (after_call sw raw t) = state sw) \<and>
   (t - lastChange (after_call sw raw t) > debounceDelay \<and> raw \<noteq> state sw \<longrightarrow>
      state (after_call sw raw t) = raw \<and> changed (after_call sw raw t)) \<and>
   (lastRead sw = r \<and> state sw \<noteq> r \<longrightarrow>
      map changed (debounce_calls sw (held r ts)) =
        replicate (length (takeWhile (\<lambda>t. t - lastChange sw \<le> debounceDelay) ts)) False @
        (case dropWhile (\<lambda>t. t - lastChange sw \<le> debounceDelay) ts of
           [] \<Rightarrow> [] | t # rest \<Rightarrow> True # replicate (length rest) False) \<and>
      map state (debounce_calls sw (held r ts)) =
        replicate (length (takeWhile (\<lambda>t. t - lastChange sw \<le> debounceDelay) ts)) (state sw) @
        replicate (length (dropWhile (\<lambda>t. t - lastChange sw \<le> debounceDelay) ts)) r) \<and>
   (lastRead sw \<noteq> r \<and> state sw \<noteq> r \<longrightarrow>
      map changed (debounce_calls sw (held r (t # ts))) =
        False #
        replicate (length (takeWhile (\<lambda>u. u - t \<le> debounceDelay) ts)) False @
        (case dropWhile (\<lambda>u. u - t \<le> debounceDelay) ts of
           [] \<Rightarrow> [] | u # rest \<Rightarrow> True # replicate (length rest) False) \<and>
      map state (debounce_calls sw (held r (t # ts))) =
        state sw #
        replicate (length (takeWhile (\<lambda>u. u - t \<le> debounceDelay) ts)) (state sw) @
        replicate (length (dropWhile (\<lambda>u. u - t \<le> debounceDelay) ts)) r)"
proof -
  have quiet: "state (after_call sw raw t) = state sw"
    if "t - lastChange (after_call sw raw t) \<le> debounceDelay"
    using that debounce_step(5) [of sw raw t] by (simp add: not_less [symmetric])
  have accept: "state (after_call sw raw t) = raw \<and> changed (after_call sw raw t)"
    if "t - lastChange (after_call sw raw t) > debounceDelay" "raw \<noteq> state sw"
    using that debounce_step(2,5) [of sw raw t] by simp
  from quiet accept debounce_step(1,2,3,4) [of sw raw t] debounce_flicker(1,2) [of raw sw t]
    held_pending [of sw r ts] held_from_transition [of sw r t ts]
  show ?thesis
    by blast
qed

text \<open>
  The instances: a first press at 100 \<open>\<mu>s\<close> is recorded and restarts the timer; a press
  held since 900 \<open>\<mu>s\<close> is accepted by a call at 1901 \<open>\<mu>s\<close>, and the flag that call
  set is cleared by the next one; sampled at 1500, 1900, 1901 and 2500 \<open>\<mu>s\<close> the press
  is accepted at 1901 (1000 \<open>\<mu>s\<close> of quiet are not yet enough) and flagged in that call
  only; a released switch pressed at 300 \<open>\<mu>s\<close> and held is accepted at 1301 and not
  after 600 \<open>\<mu>s\<close>; and a press with a flicker before it, computed call by call.
\<close>

theorem debounce_contract_witness:
  "lastChange (after_call initial_switch True 100) = 100 \<and>
   lastRead (after_call initial_switch True 100) \<and>
   state (after_call initial_switch True 100) = False \<and>
   state (after_call (initial_switch\<lparr>lastRead := True, lastChange := 900\<rparr>) True 1901) \<and>
   changed (after_call (initial_switch\<lparr>lastRead := True, lastChange := 900\<rparr>) True 1901) \<and>
   \<not> changed (after_call (initial_switch\<lparr>state := True, changed := True, lastRead := True,
       lastChange := 900\<rparr>) True 2500) \<and>
   map changed (debounce_calls (initial_switch\<lparr>lastRead := True, lastChange := 900\<rparr>)
      (held True [1500, 1900, 1901, 2500])) = [False, False, True, False] \<and>
   map state (debounce_calls (initial_switch\<lparr>lastRead := True, lastChange := 900\<rparr>)
      (held True [1500, 1900, 1901, 2500])) = [False, False, True, True] \<and>
   map changed (debounce_calls initial_switch (held True [300, 900, 1300, 1301, 2000])) =
      [False, False, False, True, False] \<and>
   map state (debounce_calls initial_switch (held True [300, 900, 1300, 1301, 2000])) =
      [False, False, False, True, True] \<and>
   map state (debounce_calls initial_switch (held True [300, 900])) = [False, False] \<and>
   map changed (debounce_calls initial_switch
      [(True, 100), (False, 600), (True, 900), (True, 1500), (True, 1901), (True, 2500)]) =
      [False, False, False, False, True, False]"
  using
    debounce_contract [of initial_switch True 100 False "[]"]
    debounce_contract [of "initial_switch\<lparr>lastRead := True, lastChange := 900\<rparr>" True 1901
      False "[]"]
    debounce_contract [of "initial_switch\<lparr>state := True, changed := True, lastRead := True,
      lastChange := 900\<rparr>" True 2500 False "[]"]
    debounce_contract [of "initial_switch\<lparr>lastRead := True, lastChange := 900\<rparr>" True 1500 True
      "[1500, 1900, 1901, 2500]"]
    debounce_contract [of initial_switch True 300 True "[900, 1300, 1301, 2000]"]
    debounce_contract [of initial_switch True 300 True "[900]"]
  by (simp add: initial_switch_def debounceDelay_def debounceSwitch_def Let_def)

section \<open>Display mode sequencer: date countdown\<close>

text \<open>
  Claim C5. In WIFI emulation, when the display mode is DATE and the countdown is positive,
  one run of \<^verbatim>\<open>updateDisplayStateIfNeeded\<close> decrements the countdown and changes nothing
  else: the mode is still DATE, whatever the manual override, its target, the day and the
  time of day are.
\<close>

theorem date_countdown_precedence:
  "emulation (info g) = WIFI \<and> currentDisplayMode g = MODE_DATE \<and> datecounter g > 0 \<longrightarrow>
     updateDisplayStateIfNeeded tz g = g\<lparr>datecounter := datecounter g - 1\<rparr> \<and>
     currentDisplayMode (updateDisplayStateIfNeeded tz g) = MODE_DATE \<and>
     datecounter (updateDisplayStateIfNeeded tz g) = datecounter g - 1"
  by (simp add: updateDisplayStateIfNeeded_def normalBlanking_def updateDisplayValue_def Let_def)

text \<open>
  The instance: countdown 3 on a Saturday at 21:30:00, outside the display window, with
  and without a manual override that asks for a blank display.
\<close>

theorem date_countdown_precedence_witness:
  "emulation (info blank_window_date) = WIFI \<and>
   \<not> (ontime blank_window_date \<le> His_toInt saturday_evening \<and>
      His_toInt saturday_evening < offtime blank_window_date) \<and>
   day_l saturday_evening = weekendDay1 blank_window_date \<and>
   currentDisplayMode (updateDisplayStateIfNeeded saturday_evening blank_window_date) = MODE_DATE \<and>
   datecounter (updateDisplayStateIfNeeded saturday_evening blank_window_date) = 2 \<and>
   currentDisplayMode (updateDisplayStateIfNeeded saturday_evening
      (blank_window_date\<lparr>manualOverride := True, overrideForBlank := True\<rparr>)) = MODE_DATE"
  using
    date_countdown_precedence [of blank_window_date saturday_evening]
    date_countdown_precedence
      [of "blank_window_date\<lparr>manualOverride := True, overrideForBlank := True\<rparr>" saturday_evening]
  by (simp add: blank_window_date_def saturday_evening_def initial_globals_def)

section \<open>Display mode sequencer: auto-date\<close>




end
